theory Spec2Isabelle
  imports Main "HOL-Library.Sublist"
begin

section \<open>EC2 Manager: a shallow embedding of \<^verbatim>\<open>ec2_manager.py\<close>\<close>

subsection \<open>Python values, exceptions and the built-ins the script relies on\<close>

text \<open>
  The describe response is a nested structure of dictionaries, lists and scalars.
  A dictionary is an association list (\<^verbatim>\<open>d.get(k)\<close> reads the first binding of
  \<^verbatim>\<open>k\<close>); a \<^verbatim>\<open>datetime\<close> is kept opaque.
\<close>

datatype pyval =
    PNone
  | PBool bool
  | PInt int
  | PStr string
  | PDatetime int
  | PList "pyval list"
  | PDict "(string \<times> pyval) list"

text \<open>
  A \<^verbatim>\<open>botocore\<close> \<^verbatim>\<open>ClientError\<close> carries the provider's error code, the
  operation that was called, optional retry information and the provider's message.
\<close>

record client_error =
  err_code :: string
  err_operation :: string
  err_retry_info :: string
  err_message :: string

text \<open>
  The exceptions that can travel through the script: the provider error, the two
  interpreter errors the mapper can trigger, and any other exception a remote call
  may raise (which no \<^verbatim>\<open>except ClientError\<close> clause catches).
\<close>

datatype exn =
    ClientError client_error
  | TypeError
  | AttributeError
  | OtherException string

text \<open>
  \<^verbatim>\<open>str(e)\<close> of a \<^verbatim>\<open>ClientError\<close>, by the message template of the library:
  \<^verbatim>\<open>An error occurred ({error_code}) when calling the {operation_name}
  operation{retry_info}: {error_message}\<close>.
\<close>

definition str_client_error :: "client_error \<Rightarrow> string" where
  "str_client_error e =
     ''An error occurred ('' @ err_code e @ '') when calling the '' @ err_operation e
       @ '' operation'' @ err_retry_info e @ '': '' @ err_message e"

text \<open>\<^verbatim>\<open>sub in s\<close> on strings: \<^verbatim>\<open>sub\<close> occurs in \<^verbatim>\<open>s\<close> as a contiguous block.\<close>

fun py_in :: "string \<Rightarrow> string \<Rightarrow> bool" where
  "py_in sub [] = (sub = [])"
| "py_in sub (c # cs) = (prefix sub (c # cs) \<or> py_in sub cs)"

text \<open>Truth value of an object, as tested by \<^verbatim>\<open>if x := ...\<close>.\<close>

fun py_truthy :: "pyval \<Rightarrow> bool" where
  "py_truthy PNone = False"
| "py_truthy (PBool b) = b"
| "py_truthy (PInt i) = (i \<noteq> 0)"
| "py_truthy (PStr s) = (s \<noteq> [])"
| "py_truthy (PDatetime t) = True"
| "py_truthy (PList xs) = (xs \<noteq> [])"
| "py_truthy (PDict kvs) = (kvs \<noteq> [])"

text \<open>
  \<^verbatim>\<open>obj.get(key)\<close>: on a dictionary the value, or \<^verbatim>\<open>None\<close> when the key is
  absent; every other kind of value has no attribute \<^verbatim>\<open>get\<close>.
\<close>

definition dict_get :: "(string \<times> pyval) list \<Rightarrow> string \<Rightarrow> pyval" where
  "dict_get kvs k = (case map_of kvs k of None \<Rightarrow> PNone | Some v \<Rightarrow> v)"

fun py_get :: "pyval \<Rightarrow> string \<Rightarrow> exn + pyval" where
  "py_get (PDict kvs) k = Inr (dict_get kvs k)"
| "py_get PNone k = Inl AttributeError"
| "py_get (PBool b) k = Inl AttributeError"
| "py_get (PInt i) k = Inl AttributeError"
| "py_get (PStr s) k = Inl AttributeError"
| "py_get (PDatetime t) k = Inl AttributeError"
| "py_get (PList xs) k = Inl AttributeError"

text \<open>
  The elements a \<^verbatim>\<open>for\<close> loop visits: the items of a list, the characters of a
  string, the keys of a dictionary; the other values are not iterable.
\<close>

fun py_iter :: "pyval \<Rightarrow> exn + pyval list" where
  "py_iter (PList xs) = Inr xs"
| "py_iter (PStr s) = Inr (map (\<lambda>c. PStr [c]) s)"
| "py_iter (PDict kvs) = Inr (map (\<lambda>kv. PStr (fst kv)) kvs)"
| "py_iter PNone = Inl TypeError"
| "py_iter (PBool b) = Inl TypeError"
| "py_iter (PInt i) = Inl TypeError"
| "py_iter (PDatetime t) = Inl TypeError"

text \<open>
  \<^verbatim>\<open>str(x)\<close>, as used by \<^verbatim>\<open>print\<close> and by f-strings: a string is itself and
  \<^verbatim>\<open>None\<close> is \<^verbatim>\<open>None\<close>; the rendering of numbers, timestamps and containers is
  the interpreter's and is taken as the parameter \<open>rp\<close>.
\<close>

fun py_str :: "(pyval \<Rightarrow> string) \<Rightarrow> pyval \<Rightarrow> string" where
  "py_str rp (PStr s) = s"
| "py_str rp PNone = ''None''"
| "py_str rp v = rp v"

subsection \<open>The dataclasses\<close>

record Settings =
  instance_id :: string
  test :: bool
  verbose :: bool
  quiet :: bool

text \<open>
  The dataclass performs no checks on construction, so each field holds whatever the
  response held. The field \<^verbatim>\<open>instance_id\<close> of \<^verbatim>\<open>EC2Instance\<close> is named
  \<open>ec2_instance_id\<close> here, since \<^verbatim>\<open>Settings\<close> has a field of the same name.
\<close>

record EC2Instance =
  image_id :: pyval
  ec2_instance_id :: pyval
  instance_type :: pyval
  launch_time :: pyval
  availability_zone :: pyval
  private_dns_name :: pyval
  private_ip_address :: pyval
  public_ip_address :: pyval
  public_dns_name :: pyval
  state :: pyval
  subnet_id :: pyval
  vpc_id :: pyval
  tags :: pyval

subsection \<open>The mapper: \<^verbatim>\<open>EC2Manager.instance_from_response\<close>\<close>

text \<open>
  Sequencing of two steps of which the first may raise: an exception of the first step
  ends the computation, a value is handed to the second.
\<close>

definition and_then :: "exn + 'a \<Rightarrow> ('a \<Rightarrow> exn + 'b) \<Rightarrow> exn + 'b" where
  "and_then m f = (case m of Inl e \<Rightarrow> Inl e | Inr a \<Rightarrow> f a)"

text \<open>The two fields with a fallback (lines 95 to 102): a falsy value becomes the sentinel.\<close>

definition or_NONE :: "pyval \<Rightarrow> pyval" where
  "or_NONE v = (if py_truthy v then v else PStr ''NONE'')"

text \<open>The body of the inner loop (lines 95 to 117): one entry to one record.\<close>

definition ec2_instance_of :: "pyval \<Rightarrow> exn + EC2Instance" where
  "ec2_instance_of instance =
     and_then (py_get instance ''PublicDnsName'') (\<lambda>dns.
     and_then (py_get instance ''PublicIpAddress'') (\<lambda>ip.
     and_then (py_get instance ''ImageId'') (\<lambda>v_image.
     and_then (py_get instance ''InstanceId'') (\<lambda>v_id.
     and_then (py_get instance ''InstanceType'') (\<lambda>v_type.
     and_then (py_get instance ''LaunchTime'') (\<lambda>v_launch.
     and_then (py_get instance ''Placement'') (\<lambda>placement.
     and_then (py_get placement ''AvailabilityZone'') (\<lambda>v_az.
     and_then (py_get instance ''PrivateDnsName'') (\<lambda>v_pdns.
     and_then (py_get instance ''PrivateIpAddress'') (\<lambda>v_pip.
     and_then (py_get instance ''State'') (\<lambda>st.
     and_then (py_get st ''Name'') (\<lambda>v_state.
     and_then (py_get instance ''SubnetId'') (\<lambda>v_subnet.
     and_then (py_get instance ''VpcId'') (\<lambda>v_vpc.
     and_then (py_get instance ''Tags'') (\<lambda>v_tags.
     Inr \<lparr> image_id = v_image, ec2_instance_id = v_id, instance_type = v_type,
           launch_time = v_launch, availability_zone = v_az,
           private_dns_name = v_pdns, private_ip_address = v_pip,
           public_ip_address = or_NONE ip, public_dns_name = or_NONE dns,
           state = v_state, subnet_id = v_subnet, vpc_id = v_vpc,
           tags = v_tags \<rparr>)))))))))))))))"

text \<open>The inner loop over the instances of one reservation, appending to the result list.\<close>

fun instances_loop :: "pyval list \<Rightarrow> EC2Instance list \<Rightarrow> exn + EC2Instance list" where
  "instances_loop [] ec2_instances = Inr ec2_instances"
| "instances_loop (instance # rest) ec2_instances =
     and_then (ec2_instance_of instance) (\<lambda>ec2_instance.
     instances_loop rest (ec2_instances @ [ec2_instance]))"

text \<open>The outer loop over the reservations.\<close>

fun reservations_loop :: "pyval list \<Rightarrow> EC2Instance list \<Rightarrow> exn + EC2Instance list" where
  "reservations_loop [] ec2_instances = Inr ec2_instances"
| "reservations_loop (reservation # rest) ec2_instances =
     and_then (py_get reservation ''Instances'') (\<lambda>v.
     and_then (py_iter v) (\<lambda>instances.
     and_then (instances_loop instances ec2_instances) (\<lambda>ec2_instances'.
     reservations_loop rest ec2_instances')))"

definition instance_from_response :: "pyval \<Rightarrow> exn + EC2Instance list" where
  "instance_from_response response =
     and_then (py_get response ''Reservations'') (\<lambda>v.
     and_then (py_iter v) (\<lambda>reservations.
     reservations_loop reservations []))"

subsection \<open>The console and the provider client\<close>

text \<open>
  The observable effects of a run: the arguments of the \<^verbatim>\<open>print\<close> calls, in
  order (each call writes its argument and a line break), and the remote calls
  issued on the client, in order, with their \<^verbatim>\<open>InstanceIds\<close> and \<^verbatim>\<open>DryRun\<close>
  arguments.
\<close>

datatype call =
    DescribeInstances
  | StartInstances "string list" bool
  | StopInstances "string list" bool

record world =
  stdout :: "string list"
  calls :: "call list"

text \<open>
  The client \<^verbatim>\<open>self.ec2\<close>: what each remote call returns or raises. A run issues
  each call with given arguments at most once, so a function of the arguments
  describes the provider completely.
\<close>

record ec2_client =
  describe_instances :: "exn + pyval"
  start_instances :: "string list \<Rightarrow> bool \<Rightarrow> exn + pyval"
  stop_instances :: "string list \<Rightarrow> bool \<Rightarrow> exn + pyval"

definition py_print :: "string \<Rightarrow> world \<Rightarrow> world" where
  "py_print s w = w\<lparr>stdout := stdout w @ [s]\<rparr>"

definition call_describe_instances :: "ec2_client \<Rightarrow> world \<Rightarrow> (exn + pyval) \<times> world" where
  "call_describe_instances ec2 w =
     (describe_instances ec2, w\<lparr>calls := calls w @ [DescribeInstances]\<rparr>)"

definition call_start_instances ::
  "ec2_client \<Rightarrow> string list \<Rightarrow> bool \<Rightarrow> world \<Rightarrow> (exn + pyval) \<times> world" where
  "call_start_instances ec2 ids dry_run w =
     (start_instances ec2 ids dry_run, w\<lparr>calls := calls w @ [StartInstances ids dry_run]\<rparr>)"

definition call_stop_instances ::
  "ec2_client \<Rightarrow> string list \<Rightarrow> bool \<Rightarrow> world \<Rightarrow> (exn + pyval) \<times> world" where
  "call_stop_instances ec2 ids dry_run w =
     (stop_instances ec2 ids dry_run, w\<lparr>calls := calls w @ [StopInstances ids dry_run]\<rparr>)"

subsection \<open>The gated printers and \<^verbatim>\<open>EC2Manager.print_instance_summary\<close>\<close>

definition verbose_output :: "Settings \<Rightarrow> string \<Rightarrow> world \<Rightarrow> world" where
  "verbose_output settings message w = (if verbose settings then py_print message w else w)"

definition not_quiet :: "Settings \<Rightarrow> string \<Rightarrow> world \<Rightarrow> world" where
  "not_quiet settings message w = (if \<not> quiet settings then py_print message w else w)"

definition print_instance_summary ::
  "(pyval \<Rightarrow> string) \<Rightarrow> Settings \<Rightarrow> EC2Instance \<Rightarrow> world \<Rightarrow> world" where
  "print_instance_summary rp settings instance w0 =
     (let w1 = py_print (py_str rp (ec2_instance_id instance)) w0;
          w2 = not_quiet settings ''~~~~~~~~~~~~~~~~~~~~~~~~~~~~~~~~~~~~~~'' w1;
          w3 = verbose_output settings (''  AMI:         '' @ py_str rp (image_id instance)) w2;
          w4 = not_quiet settings (''  Type:        '' @ py_str rp (instance_type instance)) w3;
          w5 = verbose_output settings (''  Launched:    '' @ py_str rp (launch_time instance)) w4;
          w6 = verbose_output settings
                 (''  AZ:          '' @ py_str rp (availability_zone instance)) w5;
          w7 = verbose_output settings
                 (''  Private DNS: '' @ py_str rp (private_dns_name instance)) w6;
          w8 = verbose_output settings
                 (''  Public DNS:  '' @ py_str rp (public_dns_name instance)) w7;
          w9 = not_quiet settings
                 (''  Private IP:  '' @ py_str rp (private_ip_address instance)) w8;
          w10 = not_quiet settings
                 (''  Public IP:   '' @ py_str rp (public_ip_address instance)) w9;
          w11 = verbose_output settings (''  Subnet Id:   '' @ py_str rp (subnet_id instance)) w10;
          w12 = verbose_output settings (''  VPC Id:      '' @ py_str rp (vpc_id instance)) w11;
          w13 = not_quiet settings (''  State:       '' @ py_str rp (state instance)) w12;
          w14 = verbose_output settings (''  Tags:        '' @ py_str rp (tags instance)) w13
      in py_print [] w14)"

subsection \<open>The action runner: \<^verbatim>\<open>EC2Manager.start\<close> and \<^verbatim>\<open>EC2Manager.stop\<close>\<close>

text \<open>
  The \<^verbatim>\<open>try\<close> statement around the dry run (lines 148 to 160): a returned value
  passes, a \<^verbatim>\<open>ClientError\<close> is caught and reported under test mode only, any
  other exception leaves the method.
\<close>

fun start_dry_run_except :: "Settings \<Rightarrow> exn + pyval \<Rightarrow> world \<Rightarrow> (exn + unit) \<times> world" where
  "start_dry_run_except settings (Inr response) w = (Inr (), w)"
| "start_dry_run_except settings (Inl (ClientError e)) w =
     (Inr (),
      if \<not> py_in ''DryRunOperation'' (str_client_error e) then
        (if test settings then
           py_print (''Test failed, can'' @ [CHR 0x27] @ ''t start '' @ instance_id settings
                       @ ''.'' @ [CHR 0x0A] @ str_client_error e) w
         else w)
      else
        (if test settings then
           py_print (''Test successful, able to start '' @ instance_id settings @ ''.'') w
         else w))"
| "start_dry_run_except settings (Inl x) w = (Inl x, w)"

text \<open>The \<^verbatim>\<open>try\<close> statement around the real call (lines 166 to 173).\<close>

fun start_real_except :: "Settings \<Rightarrow> exn + pyval \<Rightarrow> world \<Rightarrow> (exn + unit) \<times> world" where
  "start_real_except settings (Inr response) w =
     (Inr (), py_print (''Command successful, '' @ instance_id settings @ '' is staring...'') w)"
| "start_real_except settings (Inl (ClientError e)) w =
     (Inr (), py_print (''ERROR: '' @ str_client_error e) w)"
| "start_real_except settings (Inl x) w = (Inl x, w)"

definition start :: "ec2_client \<Rightarrow> Settings \<Rightarrow> world \<Rightarrow> (exn + unit) \<times> world" where
  "start ec2 settings w0 =
     (let (r1, w1) = call_start_instances ec2 [instance_id settings] True w0;
          (checked, w2) = start_dry_run_except settings r1 w1
      in case checked of
           Inl x \<Rightarrow> (Inl x, w2)
         | Inr u \<Rightarrow>
             if test settings then (Inr (), w2)
             else (let (r2, w3) = call_start_instances ec2 [instance_id settings] False w2
                   in start_real_except settings r2 w3))"

fun stop_dry_run_except :: "Settings \<Rightarrow> exn + pyval \<Rightarrow> world \<Rightarrow> (exn + unit) \<times> world" where
  "stop_dry_run_except settings (Inr response) w = (Inr (), w)"
| "stop_dry_run_except settings (Inl (ClientError e)) w =
     (Inr (),
      if \<not> py_in ''DryRunOperation'' (str_client_error e) then
        (if test settings then
           py_print (''Test failed, can'' @ [CHR 0x27] @ ''t stop '' @ instance_id settings
                       @ ''.'' @ [CHR 0x0A] @ str_client_error e) w
         else w)
      else
        (if test settings then
           py_print (''Test successful, able to stop '' @ instance_id settings @ ''.'') w
         else w))"
| "stop_dry_run_except settings (Inl x) w = (Inl x, w)"

fun stop_real_except :: "Settings \<Rightarrow> exn + pyval \<Rightarrow> world \<Rightarrow> (exn + unit) \<times> world" where
  "stop_real_except settings (Inr response) w =
     (Inr (), py_print (''Command successful, '' @ instance_id settings @ '' is stopping...'') w)"
| "stop_real_except settings (Inl (ClientError e)) w =
     (Inr (), py_print (''ERROR: '' @ str_client_error e) w)"
| "stop_real_except settings (Inl x) w = (Inl x, w)"

definition stop :: "ec2_client \<Rightarrow> Settings \<Rightarrow> world \<Rightarrow> (exn + unit) \<times> world" where
  "stop ec2 settings w0 =
     (let (r1, w1) = call_stop_instances ec2 [instance_id settings] True w0;
          (checked, w2) = stop_dry_run_except settings r1 w1
      in case checked of
           Inl x \<Rightarrow> (Inl x, w2)
         | Inr u \<Rightarrow>
             if test settings then (Inr (), w2)
             else (let (r2, w3) = call_stop_instances ec2 [instance_id settings] False w2
                   in stop_real_except settings r2 w3))"

subsection \<open>Listing: \<^verbatim>\<open>EC2Manager.list_instances\<close> and the list branch of the script\<close>

definition list_instances :: "ec2_client \<Rightarrow> world \<Rightarrow> (exn + EC2Instance list) \<times> world" where
  "list_instances ec2 w0 =
     (let (boto_response, w1) = call_describe_instances ec2 w0
      in (and_then boto_response instance_from_response, w1))"

text \<open>The loop of lines 248 and 249.\<close>

fun print_all :: "(pyval \<Rightarrow> string) \<Rightarrow> Settings \<Rightarrow> EC2Instance list \<Rightarrow> world \<Rightarrow> world" where
  "print_all rp settings [] w = w"
| "print_all rp settings (i # rest) w =
     print_all rp settings rest (print_instance_summary rp settings i w)"

text \<open>
  Lines 237 to 249, given the parsed \<^verbatim>\<open>--test\<close>, \<^verbatim>\<open>--verbose\<close> and
  \<^verbatim>\<open>--quiet\<close> flags and the client that the constructor of the manager built.
\<close>

definition main_list_mode ::
  "(pyval \<Rightarrow> string) \<Rightarrow> ec2_client \<Rightarrow> bool \<Rightarrow> bool \<Rightarrow> bool \<Rightarrow> world
     \<Rightarrow> (exn + unit) \<times> world" where
  "main_list_mode rp ec2 arg_test arg_verbose arg_quiet w0 =
     (let app_settings = \<lparr> instance_id = [], test = arg_test, verbose = arg_verbose,
                            quiet = arg_quiet \<rparr>;
          w1 = not_quiet app_settings (''Instances found in your AWS account:'' @ [CHR 0x0A]) w0;
          (listed, w2) = list_instances ec2 w1
      in case listed of
           Inl x \<Rightarrow> (Inl x, w2)
         | Inr all_instances \<Rightarrow> (Inr (), print_all rp app_settings all_instances w2))"

subsection \<open>Notions used in the statements\<close>

fun is_dict :: "pyval \<Rightarrow> bool" where
  "is_dict (PDict kvs) = True"
| "is_dict v = False"

fun fields_of :: "pyval \<Rightarrow> (string \<times> pyval) list" where
  "fields_of (PDict kvs) = kvs"
| "fields_of v = []"

text \<open>The field \<open>k\<close> of a dictionary, when it is present and holds a list.\<close>

fun list_field :: "pyval \<Rightarrow> string \<Rightarrow> pyval list option" where
  "list_field (PDict kvs) k = (case dict_get kvs k of PList xs \<Rightarrow> Some xs | _ \<Rightarrow> None)"
| "list_field v k = None"

text \<open>
  A valid describe response: a dictionary whose \<^verbatim>\<open>Reservations\<close> is a list of
  dictionaries, each with a list \<^verbatim>\<open>Instances\<close> of dictionaries that carry the two
  nested objects \<^verbatim>\<open>Placement\<close> and \<^verbatim>\<open>State\<close>.
\<close>

definition valid_instance_entry :: "pyval \<Rightarrow> bool" where
  "valid_instance_entry instance =
     (case instance of
        PDict kvs \<Rightarrow> is_dict (dict_get kvs ''Placement'') \<and> is_dict (dict_get kvs ''State'')
      | _ \<Rightarrow> False)"

definition valid_reservation :: "pyval \<Rightarrow> bool" where
  "valid_reservation reservation =
     (case list_field reservation ''Instances'' of
        Some instances \<Rightarrow> list_all valid_instance_entry instances
      | None \<Rightarrow> False)"

definition valid_response :: "pyval \<Rightarrow> bool" where
  "valid_response response =
     (case list_field response ''Reservations'' of
        Some reservations \<Rightarrow> list_all valid_reservation reservations
      | None \<Rightarrow> False)"

text \<open>The instance entries of a response, reservation by reservation, in source order.\<close>

definition instances_in :: "pyval \<Rightarrow> pyval list" where
  "instances_in reservation =
     (case list_field reservation ''Instances'' of Some instances \<Rightarrow> instances | None \<Rightarrow> [])"

definition instance_entries :: "pyval \<Rightarrow> pyval list" where
  "instance_entries response =
     (case list_field response ''Reservations'' of
        Some reservations \<Rightarrow> concat (map instances_in reservations)
      | None \<Rightarrow> [])"

text \<open>
  A remote call meets the contract of the client adapter when it returns or raises a
  \<^verbatim>\<open>ClientError\<close>.
\<close>

fun provider_outcome :: "exn + pyval \<Rightarrow> bool" where
  "provider_outcome (Inr response) = True"
| "provider_outcome (Inl (ClientError e)) = True"
| "provider_outcome (Inl x) = False"

definition empty_world :: world where
  "empty_world = \<lparr> stdout = [], calls = [] \<rparr>"

text \<open>What the summary printer writes for one record on an empty console.\<close>

definition summary_of :: "(pyval \<Rightarrow> string) \<Rightarrow> Settings \<Rightarrow> EC2Instance \<Rightarrow> string list" where
  "summary_of rp settings instance =
     stdout (print_instance_summary rp settings instance empty_world)"

text \<open>
  Verbosity tiers: a table gives each line of a summary its tier, and a table is
  rendered by keeping, in order, the lines whose tier the settings show.
\<close>

datatype tier = Always | Unless_quiet | Only_verbose

fun tier_shown :: "Settings \<Rightarrow> tier \<Rightarrow> bool" where
  "tier_shown settings Always = True"
| "tier_shown settings Unless_quiet = (\<not> quiet settings)"
| "tier_shown settings Only_verbose = verbose settings"

definition render_tiers :: "Settings \<Rightarrow> (tier \<times> string) list \<Rightarrow> string list" where
  "render_tiers settings table = map snd (filter (\<lambda>row. tier_shown settings (fst row)) table)"

text \<open>
  The table in the words of the specification: the instance id and the divider are
  always printed, four lines unless quiet, eight lines only if verbose.
\<close>

definition spec_summary_table :: "(pyval \<Rightarrow> string) \<Rightarrow> EC2Instance \<Rightarrow> (tier \<times> string) list" where
  "spec_summary_table rp instance =
     [(Always, py_str rp (ec2_instance_id instance)),
      (Always, ''~~~~~~~~~~~~~~~~~~~~~~~~~~~~~~~~~~~~~~''),
      (Only_verbose, ''  AMI:         '' @ py_str rp (image_id instance)),
      (Unless_quiet, ''  Type:        '' @ py_str rp (instance_type instance)),
      (Only_verbose, ''  Launched:    '' @ py_str rp (launch_time instance)),
      (Only_verbose, ''  AZ:          '' @ py_str rp (availability_zone instance)),
      (Only_verbose, ''  Private DNS: '' @ py_str rp (private_dns_name instance)),
      (Only_verbose, ''  Public DNS:  '' @ py_str rp (public_dns_name instance)),
      (Unless_quiet, ''  Private IP:  '' @ py_str rp (private_ip_address instance)),
      (Unless_quiet, ''  Public IP:   '' @ py_str rp (public_ip_address instance)),
      (Only_verbose, ''  Subnet Id:   '' @ py_str rp (subnet_id instance)),
      (Only_verbose, ''  VPC Id:      '' @ py_str rp (vpc_id instance)),
      (Unless_quiet, ''  State:       '' @ py_str rp (state instance)),
      (Only_verbose, ''  Tags:        '' @ py_str rp (tags instance)),
      (Always, [])]"

text \<open>The same table with the divider among the lines that quiet suppresses.\<close>

definition summary_table :: "(pyval \<Rightarrow> string) \<Rightarrow> EC2Instance \<Rightarrow> (tier \<times> string) list" where
  "summary_table rp instance =
     [(Always, py_str rp (ec2_instance_id instance)),
      (Unless_quiet, ''~~~~~~~~~~~~~~~~~~~~~~~~~~~~~~~~~~~~~~''),
      (Only_verbose, ''  AMI:         '' @ py_str rp (image_id instance)),
      (Unless_quiet, ''  Type:        '' @ py_str rp (instance_type instance)),
      (Only_verbose, ''  Launched:    '' @ py_str rp (launch_time instance)),
      (Only_verbose, ''  AZ:          '' @ py_str rp (availability_zone instance)),
      (Only_verbose, ''  Private DNS: '' @ py_str rp (private_dns_name instance)),
      (Only_verbose, ''  Public DNS:  '' @ py_str rp (public_dns_name instance)),
      (Unless_quiet, ''  Private IP:  '' @ py_str rp (private_ip_address instance)),
      (Unless_quiet, ''  Public IP:   '' @ py_str rp (public_ip_address instance)),
      (Only_verbose, ''  Subnet Id:   '' @ py_str rp (subnet_id instance)),
      (Only_verbose, ''  VPC Id:      '' @ py_str rp (vpc_id instance)),
      (Unless_quiet, ''  State:       '' @ py_str rp (state instance)),
      (Only_verbose, ''  Tags:        '' @ py_str rp (tags instance)),
      (Always, [])]"

subsection \<open>Sample data\<close>

text \<open>
  Two entries as the provider sends them: a running instance with public addresses,
  and a stopped one, whose \<^verbatim>\<open>PublicDnsName\<close> is the empty string and which has no
  \<^verbatim>\<open>PublicIpAddress\<close> and no \<^verbatim>\<open>Tags\<close>.
\<close>

definition example_running_fields :: "(string \<times> pyval) list" where
  "example_running_fields =
     [(''ImageId'', PStr ''ami-0abc''),
      (''InstanceId'', PStr ''i-123''),
      (''InstanceType'', PStr ''t2.micro''),
      (''LaunchTime'', PDatetime 1700000000),
      (''Placement'',
         PDict [(''AvailabilityZone'', PStr ''us-east-1a''), (''Tenancy'', PStr ''default'')]),
      (''PrivateDnsName'', PStr ''ip-10-0-0-5.ec2.internal''),
      (''PrivateIpAddress'', PStr ''10.0.0.5''),
      (''PublicDnsName'', PStr ''ec2-54-1-2-3.compute-1.amazonaws.com''),
      (''PublicIpAddress'', PStr ''54.1.2.3''),
      (''State'', PDict [(''Code'', PInt 16), (''Name'', PStr ''running'')]),
      (''SubnetId'', PStr ''subnet-1''),
      (''VpcId'', PStr ''vpc-1''),
      (''Tags'', PList [PDict [(''Key'', PStr ''Name''), (''Value'', PStr ''web'')]])]"

definition example_stopped_fields :: "(string \<times> pyval) list" where
  "example_stopped_fields =
     [(''ImageId'', PStr ''ami-0abc''),
      (''InstanceId'', PStr ''i-456''),
      (''InstanceType'', PStr ''t2.micro''),
      (''LaunchTime'', PDatetime 1700000000),
      (''Placement'',
         PDict [(''AvailabilityZone'', PStr ''us-east-1a''), (''Tenancy'', PStr ''default'')]),
      (''PrivateDnsName'', PStr ''ip-10-0-0-6.ec2.internal''),
      (''PrivateIpAddress'', PStr ''10.0.0.6''),
      (''PublicDnsName'', PStr []),
      (''State'', PDict [(''Code'', PInt 80), (''Name'', PStr ''stopped'')]),
      (''SubnetId'', PStr ''subnet-1''),
      (''VpcId'', PStr ''vpc-1'')]"

definition example_running_record :: EC2Instance where
  "example_running_record =
     \<lparr> image_id = PStr ''ami-0abc'', ec2_instance_id = PStr ''i-123'',
       instance_type = PStr ''t2.micro'', launch_time = PDatetime 1700000000,
       availability_zone = PStr ''us-east-1a'',
       private_dns_name = PStr ''ip-10-0-0-5.ec2.internal'',
       private_ip_address = PStr ''10.0.0.5'', public_ip_address = PStr ''54.1.2.3'',
       public_dns_name = PStr ''ec2-54-1-2-3.compute-1.amazonaws.com'',
       state = PStr ''running'', subnet_id = PStr ''subnet-1'', vpc_id = PStr ''vpc-1'',
       tags = PList [PDict [(''Key'', PStr ''Name''), (''Value'', PStr ''web'')]] \<rparr>"

definition example_stopped_record :: EC2Instance where
  "example_stopped_record =
     \<lparr> image_id = PStr ''ami-0abc'', ec2_instance_id = PStr ''i-456'',
       instance_type = PStr ''t2.micro'', launch_time = PDatetime 1700000000,
       availability_zone = PStr ''us-east-1a'',
       private_dns_name = PStr ''ip-10-0-0-6.ec2.internal'',
       private_ip_address = PStr ''10.0.0.6'', public_ip_address = PStr ''NONE'',
       public_dns_name = PStr ''NONE'',
       state = PStr ''stopped'', subnet_id = PStr ''subnet-1'', vpc_id = PStr ''vpc-1'',
       tags = PNone \<rparr>"

definition example_response :: pyval where
  "example_response =
     PDict [(''Reservations'',
        PList [PDict [(''ReservationId'', PStr ''r-1''),
                      (''Instances'',
                         PList [PDict example_running_fields, PDict example_stopped_fields])],
               PDict [(''ReservationId'', PStr ''r-2''),
                      (''Instances'', PList [PDict example_stopped_fields])]])]"

text \<open>Provider errors: the dry-run signal, a refusal, a throttled request, and a refusal
  whose message happens to quote the name of the dry-run signal.\<close>

definition dry_run_operation_error :: "string \<Rightarrow> client_error" where
  "dry_run_operation_error operation =
     \<lparr> err_code = ''DryRunOperation'', err_operation = operation, err_retry_info = [],
       err_message = ''Request would have succeeded, but DryRun flag is set.'' \<rparr>"

definition unauthorized_error :: "string \<Rightarrow> client_error" where
  "unauthorized_error operation =
     \<lparr> err_code = ''UnauthorizedOperation'', err_operation = operation, err_retry_info = [],
       err_message = ''You are not authorized to perform this operation.'' \<rparr>"

definition request_limit_error :: "string \<Rightarrow> client_error" where
  "request_limit_error operation =
     \<lparr> err_code = ''RequestLimitExceeded'', err_operation = operation, err_retry_info = [],
       err_message = ''Request limit exceeded.'' \<rparr>"

definition quoting_error :: "string \<Rightarrow> client_error" where
  "quoting_error operation =
     \<lparr> err_code = ''UnauthorizedOperation'', err_operation = operation, err_retry_info = [],
       err_message =
         ''You are not authorized to perform this operation (no DryRunOperation granted).'' \<rparr>"

text \<open>A provider that grants everything: the dry runs raise the dry-run signal.\<close>

definition granting_client :: ec2_client where
  "granting_client =
     \<lparr> describe_instances = Inr example_response,
       start_instances = (\<lambda>ids dry_run.
          if dry_run then Inl (ClientError (dry_run_operation_error ''StartInstances''))
          else Inr (PDict [])),
       stop_instances = (\<lambda>ids dry_run.
          if dry_run then Inl (ClientError (dry_run_operation_error ''StopInstances''))
          else Inr (PDict [])) \<rparr>"

text \<open>A provider that refuses every call.\<close>

definition refusing_client :: ec2_client where
  "refusing_client =
     \<lparr> describe_instances = Inl (ClientError (unauthorized_error ''DescribeInstances'')),
       start_instances =
         (\<lambda>ids dry_run. Inl (ClientError (unauthorized_error ''StartInstances''))),
       stop_instances =
         (\<lambda>ids dry_run. Inl (ClientError (unauthorized_error ''StopInstances''))) \<rparr>"

text \<open>A provider that throttles the dry run and then performs the action.\<close>

definition throttling_client :: ec2_client where
  "throttling_client =
     \<lparr> describe_instances = Inr example_response,
       start_instances = (\<lambda>ids dry_run.
          if dry_run then Inl (ClientError (request_limit_error ''StartInstances''))
          else Inr (PDict [])),
       stop_instances = (\<lambda>ids dry_run.
          if dry_run then Inl (ClientError (request_limit_error ''StopInstances''))
          else Inr (PDict [])) \<rparr>"

text \<open>A provider that refuses every action with the quoting message.\<close>

definition quoting_client :: ec2_client where
  "quoting_client =
     \<lparr> describe_instances = Inr example_response,
       start_instances = (\<lambda>ids dry_run. Inl (ClientError (quoting_error ''StartInstances''))),
       stop_instances = (\<lambda>ids dry_run. Inl (ClientError (quoting_error ''StopInstances''))) \<rparr>"

definition test_settings :: Settings where
  "test_settings = \<lparr> instance_id = ''i-123'', test = True, verbose = False, quiet = False \<rparr>"

definition live_settings :: Settings where
  "live_settings = \<lparr> instance_id = ''i-123'', test = False, verbose = False, quiet = False \<rparr>"

definition quiet_settings :: Settings where
  "quiet_settings = \<lparr> instance_id = [], test = False, verbose = False, quiet = True \<rparr>"

lemmas example_clients =
  granting_client_def refusing_client_def throttling_client_def quoting_client_def
  dry_run_operation_error_def unauthorized_error_def request_limit_error_def quoting_error_def

section \<open>Basic facts\<close>

subsection \<open>Sequencing, membership and lookups\<close>

lemma and_then_Inr [simp]: "and_then (Inr a) f = f a"
  by (simp add: and_then_def)

lemma and_then_Inl [simp]: "and_then (Inl e) f = Inl e"
  by (simp add: and_then_def)

lemma py_in_sublist: "py_in sub s = sublist sub s"
  by (induction s) (simp_all add: sublist_Cons_right)

text \<open>The rendered text of a provider error contains its code.\<close>

lemma dry_run_code_in_text:
  "err_code e = ''DryRunOperation'' \<Longrightarrow> py_in ''DryRunOperation'' (str_client_error e)"
  unfolding py_in_sublist str_client_error_def
  by (metis sublist_appendI)

lemma is_dict_iff: "is_dict v = (\<exists>kvs. v = PDict kvs)"
  by (cases v) simp_all

lemma py_get_not_dict: "\<not> is_dict v \<Longrightarrow> py_get v k = Inl AttributeError"
  by (cases v) simp_all

lemma list_field_Some: "list_field v k = Some xs \<Longrightarrow> py_get v k = Inr (PList xs)"
  by (cases v) (auto split: pyval.splits)

subsection \<open>The mapper\<close>

text \<open>On a dictionary only the two nested reads can fail.\<close>

lemma ec2_instance_of_dict:
  "ec2_instance_of (PDict entry) =
     and_then (py_get (dict_get entry ''Placement'') ''AvailabilityZone'') (\<lambda>v_az.
     and_then (py_get (dict_get entry ''State'') ''Name'') (\<lambda>v_state.
     Inr \<lparr> image_id = dict_get entry ''ImageId'',
           ec2_instance_id = dict_get entry ''InstanceId'',
           instance_type = dict_get entry ''InstanceType'',
           launch_time = dict_get entry ''LaunchTime'',
           availability_zone = v_az,
           private_dns_name = dict_get entry ''PrivateDnsName'',
           private_ip_address = dict_get entry ''PrivateIpAddress'',
           public_ip_address = or_NONE (dict_get entry ''PublicIpAddress''),
           public_dns_name = or_NONE (dict_get entry ''PublicDnsName''),
           state = v_state,
           subnet_id = dict_get entry ''SubnetId'',
           vpc_id = dict_get entry ''VpcId'',
           tags = dict_get entry ''Tags'' \<rparr>))"
  by (simp add: ec2_instance_of_def)

lemma ec2_instance_of_not_dict: "\<not> is_dict v \<Longrightarrow> ec2_instance_of v = Inl AttributeError"
  by (simp add: ec2_instance_of_def py_get_not_dict)

lemma valid_entry_maps: "valid_instance_entry i \<Longrightarrow> \<exists>r. ec2_instance_of i = Inr r"
  by (cases i) (auto simp: valid_instance_entry_def ec2_instance_of_dict is_dict_iff)

lemma instances_loop_valid:
  "list_all valid_instance_entry entries \<Longrightarrow>
   \<exists>recs. instances_loop entries acc = Inr (acc @ recs)
         \<and> map ec2_instance_of entries = map Inr recs"
proof (induction entries arbitrary: acc)
  case Nil
  then show ?case by simp
next
  case (Cons i rest)
  from Cons.prems obtain r where r: "ec2_instance_of i = Inr r"
    using valid_entry_maps by auto
  from Cons.prems have "list_all valid_instance_entry rest" by simp
  from Cons.IH [OF this, of "acc @ [r]"] obtain recs where
    "instances_loop rest (acc @ [r]) = Inr ((acc @ [r]) @ recs)"
    "map ec2_instance_of rest = map Inr recs" by blast
  with r have "instances_loop (i # rest) acc = Inr (acc @ (r # recs))
      \<and> map ec2_instance_of (i # rest) = map Inr (r # recs)" by simp
  then show ?case by blast
qed

lemma reservations_loop_valid:
  "list_all valid_reservation rs \<Longrightarrow>
   \<exists>recs. reservations_loop rs acc = Inr (acc @ recs)
         \<and> map ec2_instance_of (concat (map instances_in rs)) = map Inr recs"
proof (induction rs arbitrary: acc)
  case Nil
  then show ?case by simp
next
  case (Cons res rest)
  from Cons.prems obtain entries where
    f: "list_field res ''Instances'' = Some entries"
    and v: "list_all valid_instance_entry entries"
    by (auto simp: valid_reservation_def split: option.splits)
  from instances_loop_valid [OF v, of acc] obtain recs1 where
    l1: "instances_loop entries acc = Inr (acc @ recs1)"
    and m1: "map ec2_instance_of entries = map Inr recs1" by blast
  from Cons.prems have "list_all valid_reservation rest" by simp
  from Cons.IH [OF this, of "acc @ recs1"] obtain recs2 where
    l2: "reservations_loop rest (acc @ recs1) = Inr ((acc @ recs1) @ recs2)"
    and m2: "map ec2_instance_of (concat (map instances_in rest)) = map Inr recs2" by blast
  have "reservations_loop (res # rest) acc = Inr (acc @ (recs1 @ recs2))"
    using list_field_Some [OF f] l1 l2 by simp
  moreover
  have "map ec2_instance_of (concat (map instances_in (res # rest))) = map Inr (recs1 @ recs2)"
    using f m1 m2 by (simp add: instances_in_def)
  ultimately show ?case by blast
qed

lemma example_running_mapped:
  "ec2_instance_of (PDict example_running_fields) = Inr example_running_record"
  by (simp add: ec2_instance_of_dict example_running_fields_def example_running_record_def
      dict_get_def or_NONE_def)

lemma example_stopped_mapped:
  "ec2_instance_of (PDict example_stopped_fields) = Inr example_stopped_record"
  by (simp add: ec2_instance_of_dict example_stopped_fields_def example_stopped_record_def
      dict_get_def or_NONE_def)

lemma example_response_valid: "valid_response example_response"
  by (simp add: valid_response_def example_response_def valid_reservation_def
      valid_instance_entry_def example_running_fields_def example_stopped_fields_def
      dict_get_def)

lemma example_entries:
  "instance_entries example_response =
     [PDict example_running_fields, PDict example_stopped_fields, PDict example_stopped_fields]"
  by (simp add: instance_entries_def example_response_def instances_in_def dict_get_def)

subsection \<open>The printers\<close>

lemma py_print_stdout: "stdout (py_print m w) = stdout w @ [m]"
  by (simp add: py_print_def)

lemma not_quiet_stdout:
  "stdout (not_quiet settings m w) = stdout w @ (if quiet settings then [] else [m])"
  by (simp add: not_quiet_def py_print_def)

lemma verbose_output_stdout:
  "stdout (verbose_output settings m w) = stdout w @ (if verbose settings then [m] else [])"
  by (simp add: verbose_output_def py_print_def)

lemma print_instance_summary_stdout:
  "stdout (print_instance_summary rp settings instance w) =
     stdout w @ render_tiers settings (summary_table rp instance)"
proof -
  have "stdout (print_instance_summary rp settings instance w) =
     stdout w @ [py_str rp (ec2_instance_id instance)]
       @ (if quiet settings then [] else [''~~~~~~~~~~~~~~~~~~~~~~~~~~~~~~~~~~~~~~''])
       @ (if verbose settings then [''  AMI:         '' @ py_str rp (image_id instance)] else [])
       @ (if quiet settings then []
          else [''  Type:        '' @ py_str rp (instance_type instance)])
       @ (if verbose settings
          then [''  Launched:    '' @ py_str rp (launch_time instance)] else [])
       @ (if verbose settings
          then [''  AZ:          '' @ py_str rp (availability_zone instance)] else [])
       @ (if verbose settings
          then [''  Private DNS: '' @ py_str rp (private_dns_name instance)] else [])
       @ (if verbose settings
          then [''  Public DNS:  '' @ py_str rp (public_dns_name instance)] else [])
       @ (if quiet settings then []
          else [''  Private IP:  '' @ py_str rp (private_ip_address instance)])
       @ (if quiet settings then []
          else [''  Public IP:   '' @ py_str rp (public_ip_address instance)])
       @ (if verbose settings then [''  Subnet Id:   '' @ py_str rp (subnet_id instance)] else [])
       @ (if verbose settings then [''  VPC Id:      '' @ py_str rp (vpc_id instance)] else [])
       @ (if quiet settings then [] else [''  State:       '' @ py_str rp (state instance)])
       @ (if verbose settings then [''  Tags:        '' @ py_str rp (tags instance)] else [])
       @ [[]]"
    unfolding print_instance_summary_def Let_def
    by (simp only: not_quiet_stdout verbose_output_stdout py_print_stdout append_assoc)
  also have "\<dots> = stdout w @ render_tiers settings (summary_table rp instance)"
    by (cases "quiet settings"; cases "verbose settings")
       (simp_all add: render_tiers_def summary_table_def)
  finally show ?thesis .
qed

lemma print_instance_summary_from_empty:
  "stdout (print_instance_summary rp settings instance w) =
     stdout w @ summary_of rp settings instance"
  by (simp add: summary_of_def print_instance_summary_stdout empty_world_def)

lemma print_all_stdout:
  "stdout (print_all rp settings instances w) =
     stdout w @ concat (map (summary_of rp settings) instances)"
proof (induction instances arbitrary: w)
  case Nil
  show ?case by simp
next
  case (Cons i rest)
  show ?case
    by (simp add: Cons.IH print_instance_summary_from_empty)
qed

lemma list_instances_stdout: "stdout (snd (list_instances ec2 w)) = stdout w"
  by (simp add: list_instances_def call_describe_instances_def)

lemma list_instances_fst:
  "fst (list_instances ec2 w) = and_then (describe_instances ec2) instance_from_response"
  by (simp add: list_instances_def call_describe_instances_def)

subsection \<open>The action runner\<close>

lemma start_test_calls:
  "test settings \<Longrightarrow>
   calls (snd (start ec2 settings w)) = calls w @ [StartInstances [instance_id settings] True]"
  by (cases "(settings, start_instances ec2 [instance_id settings] True, w)"
        rule: start_dry_run_except.cases)
     (simp_all add: start_def call_start_instances_def py_print_def)

lemma stop_test_calls:
  "test settings \<Longrightarrow>
   calls (snd (stop ec2 settings w)) = calls w @ [StopInstances [instance_id settings] True]"
  by (cases "(settings, stop_instances ec2 [instance_id settings] True, w)"
        rule: stop_dry_run_except.cases)
     (simp_all add: stop_def call_stop_instances_def py_print_def)

lemma start_test_report:
  "test settings \<Longrightarrow> start_instances ec2 [instance_id settings] True = Inl (ClientError e) \<Longrightarrow>
   stdout (snd (start ec2 settings w)) = stdout w @
     [if py_in ''DryRunOperation'' (str_client_error e)
      then ''Test successful, able to start '' @ instance_id settings @ ''.''
      else ''Test failed, can'' @ [CHR 0x27] @ ''t start '' @ instance_id settings
             @ ''.'' @ [CHR 0x0A] @ str_client_error e]"
  by (simp add: start_def call_start_instances_def py_print_def)

lemma stop_test_report:
  "test settings \<Longrightarrow> stop_instances ec2 [instance_id settings] True = Inl (ClientError e) \<Longrightarrow>
   stdout (snd (stop ec2 settings w)) = stdout w @
     [if py_in ''DryRunOperation'' (str_client_error e)
      then ''Test successful, able to stop '' @ instance_id settings @ ''.''
      else ''Test failed, can'' @ [CHR 0x27] @ ''t stop '' @ instance_id settings
             @ ''.'' @ [CHR 0x0A] @ str_client_error e]"
  by (simp add: stop_def call_stop_instances_def py_print_def)

lemma start_real_except_stdout:
  "stdout (snd (start_real_except settings r (w\<lparr>calls := cs\<rparr>))) =
   stdout (snd (start_real_except settings r w))"
  by (cases "(settings, r, w)" rule: start_real_except.cases) (simp_all add: py_print_def)

lemma start_real_except_calls: "calls (snd (start_real_except settings r w)) = calls w"
  by (cases "(settings, r, w)" rule: start_real_except.cases) (simp_all add: py_print_def)

lemma stop_real_except_stdout:
  "stdout (snd (stop_real_except settings r (w\<lparr>calls := cs\<rparr>))) =
   stdout (snd (stop_real_except settings r w))"
  by (cases "(settings, r, w)" rule: stop_real_except.cases) (simp_all add: py_print_def)

lemma stop_real_except_calls: "calls (snd (stop_real_except settings r w)) = calls w"
  by (cases "(settings, r, w)" rule: stop_real_except.cases) (simp_all add: py_print_def)

lemma start_real_except_returns:
  "provider_outcome r \<Longrightarrow> fst (start_real_except settings r w) = Inr ()"
  by (cases r rule: provider_outcome.cases) simp_all

lemma stop_real_except_returns:
  "provider_outcome r \<Longrightarrow> fst (stop_real_except settings r w) = Inr ()"
  by (cases r rule: provider_outcome.cases) simp_all

text \<open>
  Outside test mode, after a dry run that returned or raised a provider error, the
  method is the real call and its handler, run on the world the dry run left.
\<close>

lemma start_live:
  "\<not> test settings \<Longrightarrow> provider_outcome (start_instances ec2 [instance_id settings] True) \<Longrightarrow>
   start ec2 settings w =
     start_real_except settings (start_instances ec2 [instance_id settings] False)
       (w\<lparr>calls := calls w @ [StartInstances [instance_id settings] True,
                                StartInstances [instance_id settings] False]\<rparr>)"
  by (cases "start_instances ec2 [instance_id settings] True" rule: provider_outcome.cases)
     (simp_all add: start_def call_start_instances_def)

lemma stop_live:
  "\<not> test settings \<Longrightarrow> provider_outcome (stop_instances ec2 [instance_id settings] True) \<Longrightarrow>
   stop ec2 settings w =
     stop_real_except settings (stop_instances ec2 [instance_id settings] False)
       (w\<lparr>calls := calls w @ [StopInstances [instance_id settings] True,
                                StopInstances [instance_id settings] False]\<rparr>)"
  by (cases "stop_instances ec2 [instance_id settings] True" rule: provider_outcome.cases)
     (simp_all add: stop_def call_stop_instances_def)

lemma start_test_returns:
  "test settings \<Longrightarrow> provider_outcome (start_instances ec2 [instance_id settings] True) \<Longrightarrow>
   fst (start ec2 settings w) = Inr ()"
  by (cases "start_instances ec2 [instance_id settings] True" rule: provider_outcome.cases)
     (simp_all add: start_def call_start_instances_def)

lemma stop_test_returns:
  "test settings \<Longrightarrow> provider_outcome (stop_instances ec2 [instance_id settings] True) \<Longrightarrow>
   fst (stop ec2 settings w) = Inr ()"
  by (cases "stop_instances ec2 [instance_id settings] True" rule: provider_outcome.cases)
     (simp_all add: stop_def call_stop_instances_def)

text \<open>The confirmation lines of the two methods, for every instance id.\<close>

lemma start_confirmation:
  "\<not> test settings \<Longrightarrow> provider_outcome (start_instances ec2 [instance_id settings] True) \<Longrightarrow>
   start_instances ec2 [instance_id settings] False = Inr response \<Longrightarrow>
   stdout (snd (start ec2 settings w)) =
     stdout w @ [''Command successful, '' @ instance_id settings @ '' is staring...'']"
  by (simp add: start_live py_print_def)

lemma stop_confirmation:
  "\<not> test settings \<Longrightarrow> provider_outcome (stop_instances ec2 [instance_id settings] True) \<Longrightarrow>
   stop_instances ec2 [instance_id settings] False = Inr response \<Longrightarrow>
   stdout (snd (stop ec2 settings w)) =
     stdout w @ [''Command successful, '' @ instance_id settings @ '' is stopping...'']"
  by (simp add: stop_live py_print_def)

section \<open>The claims\<close>

subsection \<open>C1: test mode issues the dry run only\<close>

text \<open>
  C1. With the test flag set, \<^verbatim>\<open>start\<close> and \<^verbatim>\<open>stop\<close> issue exactly one remote
  call, the dry run, and no call with \<^verbatim>\<open>DryRun=False\<close>, whatever the provider
  answers. When the dry run raises the provider error whose code is the dry-run
  signal, exactly one line is printed, the success line, and the real call is not
  issued.
\<close>

theorem test_mode_issues_only_the_dry_run:
  assumes "test settings"
  shows "calls (snd (start ec2 settings w)) = calls w @ [StartInstances [instance_id settings] True]
       \<and> calls (snd (stop ec2 settings w)) = calls w @ [StopInstances [instance_id settings] True]
       \<and> (\<forall>e. start_instances ec2 [instance_id settings] True = Inl (ClientError e)
               \<and> err_code e = ''DryRunOperation'' \<longrightarrow>
             stdout (snd (start ec2 settings w)) =
               stdout w @ [''Test successful, able to start '' @ instance_id settings @ ''.''])
       \<and> (\<forall>e. stop_instances ec2 [instance_id settings] True = Inl (ClientError e)
               \<and> err_code e = ''DryRunOperation'' \<longrightarrow>
             stdout (snd (stop ec2 settings w)) =
               stdout w @ [''Test successful, able to stop '' @ instance_id settings @ ''.''])"
  using assms
  by (simp add: start_test_calls stop_test_calls start_test_report stop_test_report
      dry_run_code_in_text)

text \<open>The granting provider, on an empty console, under \<^verbatim>\<open>--test\<close>.\<close>

theorem test_mode_issues_only_the_dry_run_witness:
  "test test_settings
   \<and> calls (snd (start granting_client test_settings empty_world))
       = [StartInstances [''i-123''] True]
   \<and> calls (snd (stop granting_client test_settings empty_world))
       = [StopInstances [''i-123''] True]
   \<and> stdout (snd (start granting_client test_settings empty_world))
       = [''Test successful, able to start i-123.'']
   \<and> stdout (snd (stop granting_client test_settings empty_world))
       = [''Test successful, able to stop i-123.'']"
  using test_mode_issues_only_the_dry_run [of test_settings granting_client empty_world]
  by (simp add: test_settings_def empty_world_def example_clients)

subsection \<open>C2: the tiers of the summary printer\<close>

text \<open>
  C2, as amended. For every record and every combination of the quiet and verbose
  flags, the summary printer appends to the console exactly the lines of the table
  \<open>summary_table\<close> whose tier is shown, in order: the instance id and the closing
  blank line always; the divider, the type, the private IP, the public IP and the
  state unless quiet is set; the AMI, the launch time, the availability zone, the
  private DNS, the public DNS, the subnet id, the VPC id and the tags if and only if
  verbose is set, whatever quiet is.
\<close>

theorem summary_printer_tiers:
  "stdout (print_instance_summary rp settings instance w) =
     stdout w @ render_tiers settings (summary_table rp instance)"
  by (rule print_instance_summary_stdout)

text \<open>
  The claim as worded puts the divider among the lines that are always printed. Under
  \<^verbatim>\<open>--quiet\<close> the printer writes the instance id and the blank line only (line 127
  sends the divider through \<^verbatim>\<open>not_quiet\<close>), where the worded table has the divider
  as well. All the fields printed here are strings, so nothing is left to \<open>rp\<close>.
\<close>

theorem summary_tiers_counterexample:
  "stdout (print_instance_summary (\<lambda>v. []) quiet_settings example_stopped_record empty_world)
     = [''i-456'', []]
   \<and> render_tiers quiet_settings (spec_summary_table (\<lambda>v. []) example_stopped_record)
     = [''i-456'', ''~~~~~~~~~~~~~~~~~~~~~~~~~~~~~~~~~~~~~~'', []]"
  by (simp add: print_instance_summary_stdout render_tiers_def summary_table_def
      spec_summary_table_def quiet_settings_def example_stopped_record_def empty_world_def)

subsection \<open>C3: the sentinel of the public DNS name and the public IP address\<close>

text \<open>
  C3, as amended. For every instance entry that the mapper turns into a record, the
  record's public DNS name and public IP address are the sentinel \<^verbatim>\<open>NONE\<close> when the
  field is absent from the entry or holds a falsy value (the empty string,
  \<^verbatim>\<open>None\<close>); a field that is present with a truthy value is passed through
  unchanged.
\<close>

theorem public_fields_default_when_absent_or_empty:
  assumes "ec2_instance_of (PDict entry) = Inr r"
  shows "public_dns_name r =
           (case map_of entry ''PublicDnsName'' of
              None \<Rightarrow> PStr ''NONE''
            | Some v \<Rightarrow> if py_truthy v then v else PStr ''NONE'')
       \<and> public_ip_address r =
           (case map_of entry ''PublicIpAddress'' of
              None \<Rightarrow> PStr ''NONE''
            | Some v \<Rightarrow> if py_truthy v then v else PStr ''NONE'')"
proof -
  from assms obtain az st where
    "r = \<lparr> image_id = dict_get entry ''ImageId'',
           ec2_instance_id = dict_get entry ''InstanceId'',
           instance_type = dict_get entry ''InstanceType'',
           launch_time = dict_get entry ''LaunchTime'',
           availability_zone = az,
           private_dns_name = dict_get entry ''PrivateDnsName'',
           private_ip_address = dict_get entry ''PrivateIpAddress'',
           public_ip_address = or_NONE (dict_get entry ''PublicIpAddress''),
           public_dns_name = or_NONE (dict_get entry ''PublicDnsName''),
           state = st,
           subnet_id = dict_get entry ''SubnetId'',
           vpc_id = dict_get entry ''VpcId'',
           tags = dict_get entry ''Tags'' \<rparr>"
    unfolding ec2_instance_of_dict and_then_def by (auto split: sum.splits)
  then show ?thesis
    by (simp add: or_NONE_def dict_get_def split: option.splits)
qed

text \<open>The running instance: both fields are present and pass through.\<close>

theorem public_fields_default_when_absent_or_empty_witness:
  "ec2_instance_of (PDict example_running_fields) = Inr example_running_record
   \<and> public_dns_name example_running_record = PStr ''ec2-54-1-2-3.compute-1.amazonaws.com''
   \<and> public_ip_address example_running_record = PStr ''54.1.2.3''"
proof -
  have h: "ec2_instance_of (PDict example_running_fields) = Inr example_running_record"
    by (rule example_running_mapped)
  from public_fields_default_when_absent_or_empty [OF h]
  have "public_dns_name example_running_record = PStr ''ec2-54-1-2-3.compute-1.amazonaws.com''
      \<and> public_ip_address example_running_record = PStr ''54.1.2.3''"
    by (simp add: example_running_fields_def)
  with h show ?thesis by blast
qed

text \<open>
  The claim as worded has the sentinel only if the field is absent. The stopped
  instance has the field \<^verbatim>\<open>PublicDnsName\<close>, holding the empty string, and its record
  has the sentinel: the test of line 95 is on the truth value of the field.
\<close>

theorem public_fields_default_counterexample:
  "map_of example_stopped_fields ''PublicDnsName'' = Some (PStr [])
   \<and> ec2_instance_of (PDict example_stopped_fields) = Inr example_stopped_record
   \<and> public_dns_name example_stopped_record = PStr ''NONE''"
  by (simp add: example_stopped_mapped)
     (simp add: example_stopped_fields_def example_stopped_record_def)

subsection \<open>C4: outside test mode the real call follows the dry run\<close>

text \<open>
  C4. With the test flag not set, and whether the dry run succeeded or failed (it
  returned, or raised a provider error with any code), \<^verbatim>\<open>start\<close> and \<^verbatim>\<open>stop\<close>
  issue the real call exactly once, right after the dry run, and the console receives
  what the handler of the real call prints and nothing else: nothing about the
  outcome of the dry run.
\<close>

theorem live_mode_issues_the_real_call_once:
  assumes "\<not> test settings"
    and "provider_outcome (start_instances ec2 [instance_id settings] True)"
    and "provider_outcome (stop_instances ec2 [instance_id settings] True)"
  shows "calls (snd (start ec2 settings w)) =
           calls w @ [StartInstances [instance_id settings] True,
                      StartInstances [instance_id settings] False]
       \<and> stdout (snd (start ec2 settings w)) =
           stdout (snd (start_real_except settings
                          (start_instances ec2 [instance_id settings] False) w))
       \<and> calls (snd (stop ec2 settings w)) =
           calls w @ [StopInstances [instance_id settings] True,
                      StopInstances [instance_id settings] False]
       \<and> stdout (snd (stop ec2 settings w)) =
           stdout (snd (stop_real_except settings
                          (stop_instances ec2 [instance_id settings] False) w))"
  using assms
  by (simp add: start_live stop_live start_real_except_stdout start_real_except_calls
      stop_real_except_stdout stop_real_except_calls)

text \<open>The throttling provider: the dry run fails, the real call is issued and succeeds.\<close>

theorem live_mode_issues_the_real_call_once_witness:
  "\<not> test live_settings
   \<and> provider_outcome (start_instances throttling_client [''i-123''] True)
   \<and> provider_outcome (stop_instances throttling_client [''i-123''] True)
   \<and> calls (snd (start throttling_client live_settings empty_world))
       = [StartInstances [''i-123''] True, StartInstances [''i-123''] False]
   \<and> calls (snd (stop throttling_client live_settings empty_world))
       = [StopInstances [''i-123''] True, StopInstances [''i-123''] False]
   \<and> stdout (snd (stop throttling_client live_settings empty_world))
       = [''Command successful, i-123 is stopping...'']"
proof -
  have a: "\<not> test live_settings" by (simp add: live_settings_def)
  have i: "instance_id live_settings = ''i-123''" by (simp add: live_settings_def)
  have b: "provider_outcome (start_instances throttling_client [instance_id live_settings] True)"
    by (simp add: i example_clients)
  have c: "provider_outcome (stop_instances throttling_client [instance_id live_settings] True)"
    by (simp add: i example_clients)
  from live_mode_issues_the_real_call_once [OF a b c, of empty_world]
  have "calls (snd (start throttling_client live_settings empty_world))
         = [StartInstances [''i-123''] True, StartInstances [''i-123''] False]
       \<and> calls (snd (stop throttling_client live_settings empty_world))
         = [StopInstances [''i-123''] True, StopInstances [''i-123''] False]
       \<and> stdout (snd (stop throttling_client live_settings empty_world))
         = [''Command successful, i-123 is stopping...'']"
    by (simp add: i empty_world_def py_print_def example_clients)
  with a b c show ?thesis by (simp add: i)
qed

subsection \<open>C5: provider errors are caught\<close>

text \<open>
  C5, as amended. In \<^verbatim>\<open>start\<close> and \<^verbatim>\<open>stop\<close>, every provider error raised by
  a remote call is caught locally: when each remote call returns or raises a
  \<^verbatim>\<open>ClientError\<close>, the method returns normally. An error of the real call is
  converted to a printed message, \<^verbatim>\<open>ERROR:\<close> followed by the raw error. An error
  of the dry run is reported under test mode, by exactly one printed line (the line
  of a successful test, or the line of a failed test with the raw error), and only
  under test mode: outside it the console receives what the handler of the real call
  prints and nothing else.
\<close>

theorem client_errors_of_start_and_stop_are_caught:
  assumes "provider_outcome (start_instances ec2 [instance_id settings] True)"
    and "provider_outcome (start_instances ec2 [instance_id settings] False)"
    and "provider_outcome (stop_instances ec2 [instance_id settings] True)"
    and "provider_outcome (stop_instances ec2 [instance_id settings] False)"
  shows "fst (start ec2 settings w) = Inr ()
       \<and> fst (stop ec2 settings w) = Inr ()
       \<and> (\<forall>e. \<not> test settings
               \<and> start_instances ec2 [instance_id settings] False = Inl (ClientError e) \<longrightarrow>
             stdout (snd (start ec2 settings w)) = stdout w @ [''ERROR: '' @ str_client_error e])
       \<and> (\<forall>e. \<not> test settings
               \<and> stop_instances ec2 [instance_id settings] False = Inl (ClientError e) \<longrightarrow>
             stdout (snd (stop ec2 settings w)) = stdout w @ [''ERROR: '' @ str_client_error e])
       \<and> (\<forall>e. test settings
               \<and> start_instances ec2 [instance_id settings] True = Inl (ClientError e) \<longrightarrow>
             stdout (snd (start ec2 settings w)) =
               stdout w @ [''Test successful, able to start '' @ instance_id settings @ ''.'']
             \<or> stdout (snd (start ec2 settings w)) =
               stdout w @ [''Test failed, can'' @ [CHR 0x27] @ ''t start '' @ instance_id settings
                             @ ''.'' @ [CHR 0x0A] @ str_client_error e])
       \<and> (\<forall>e. test settings
               \<and> stop_instances ec2 [instance_id settings] True = Inl (ClientError e) \<longrightarrow>
             stdout (snd (stop ec2 settings w)) =
               stdout w @ [''Test successful, able to stop '' @ instance_id settings @ ''.'']
             \<or> stdout (snd (stop ec2 settings w)) =
               stdout w @ [''Test failed, can'' @ [CHR 0x27] @ ''t stop '' @ instance_id settings
                             @ ''.'' @ [CHR 0x0A] @ str_client_error e])
       \<and> (\<not> test settings \<longrightarrow>
             stdout (snd (start ec2 settings w)) =
               stdout (snd (start_real_except settings
                              (start_instances ec2 [instance_id settings] False) w)))
       \<and> (\<not> test settings \<longrightarrow>
             stdout (snd (stop ec2 settings w)) =
               stdout (snd (stop_real_except settings
                              (stop_instances ec2 [instance_id settings] False) w)))"
proof (cases "test settings")
  case True
  have "stdout (snd (start ec2 settings w)) =
          stdout w @ [''Test successful, able to start '' @ instance_id settings @ ''.'']
        \<or> stdout (snd (start ec2 settings w)) =
          stdout w @ [''Test failed, can'' @ [CHR 0x27] @ ''t start '' @ instance_id settings
                        @ ''.'' @ [CHR 0x0A] @ str_client_error e]"
    if "start_instances ec2 [instance_id settings] True = Inl (ClientError e)" for e
    using start_test_report [OF True that, of w]
    by (cases "py_in ''DryRunOperation'' (str_client_error e)") simp_all
  moreover
  have "stdout (snd (stop ec2 settings w)) =
          stdout w @ [''Test successful, able to stop '' @ instance_id settings @ ''.'']
        \<or> stdout (snd (stop ec2 settings w)) =
          stdout w @ [''Test failed, can'' @ [CHR 0x27] @ ''t stop '' @ instance_id settings
                        @ ''.'' @ [CHR 0x0A] @ str_client_error e]"
    if "stop_instances ec2 [instance_id settings] True = Inl (ClientError e)" for e
    using stop_test_report [OF True that, of w]
    by (cases "py_in ''DryRunOperation'' (str_client_error e)") simp_all
  moreover have "fst (start ec2 settings w) = Inr ()" "fst (stop ec2 settings w) = Inr ()"
    using True assms by (simp_all add: start_test_returns stop_test_returns)
  ultimately show ?thesis using True by blast
next
  case False
  with assms show ?thesis
    by (simp add: start_live stop_live start_real_except_returns stop_real_except_returns
        start_real_except_stdout stop_real_except_stdout py_print_def)
qed

text \<open>
  The refusing provider: outside test mode both calls of \<^verbatim>\<open>start\<close> raise, the
  method returns and the error of the real call is printed; under test mode the method
  returns and one line is printed.
\<close>

theorem client_errors_of_start_and_stop_are_caught_witness:
  "provider_outcome (start_instances refusing_client [''i-123''] True)
   \<and> provider_outcome (start_instances refusing_client [''i-123''] False)
   \<and> provider_outcome (stop_instances refusing_client [''i-123''] True)
   \<and> provider_outcome (stop_instances refusing_client [''i-123''] False)
   \<and> fst (start refusing_client live_settings empty_world) = Inr ()
   \<and> fst (stop refusing_client live_settings empty_world) = Inr ()
   \<and> stdout (snd (start refusing_client live_settings empty_world)) =
       [''ERROR: An error occurred (UnauthorizedOperation) when calling the StartInstances operation: You are not authorized to perform this operation.'']
   \<and> fst (start refusing_client test_settings empty_world) = Inr ()
   \<and> length (stdout (snd (start refusing_client test_settings empty_world))) = 1"
proof -
  have il: "instance_id live_settings = ''i-123''" and tl: "\<not> test live_settings"
    by (simp_all add: live_settings_def)
  have it: "instance_id test_settings = ''i-123''" and tt: "test test_settings"
    by (simp_all add: test_settings_def)
  have p: "provider_outcome (start_instances refusing_client [''i-123''] True)"
    "provider_outcome (start_instances refusing_client [''i-123''] False)"
    "provider_outcome (stop_instances refusing_client [''i-123''] True)"
    "provider_outcome (stop_instances refusing_client [''i-123''] False)"
    by (simp_all add: example_clients)
  have d: "start_instances refusing_client [''i-123''] True
      = Inl (ClientError (unauthorized_error ''StartInstances''))"
    "start_instances refusing_client [''i-123''] False
      = Inl (ClientError (unauthorized_error ''StartInstances''))"
    by (simp_all add: refusing_client_def)
  from client_errors_of_start_and_stop_are_caught
         [of refusing_client live_settings empty_world] p d(2)
  have live: "fst (start refusing_client live_settings empty_world) = Inr ()
       \<and> fst (stop refusing_client live_settings empty_world) = Inr ()
       \<and> stdout (snd (start refusing_client live_settings empty_world)) =
           [''ERROR: An error occurred (UnauthorizedOperation) when calling the StartInstances operation: You are not authorized to perform this operation.'']"
    by (simp add: il tl empty_world_def unauthorized_error_def str_client_error_def)
  from client_errors_of_start_and_stop_are_caught
         [of refusing_client test_settings empty_world] p d(1)
  have "fst (start refusing_client test_settings empty_world) = Inr ()
       \<and> length (stdout (snd (start refusing_client test_settings empty_world))) = 1"
    by (auto simp: it tt empty_world_def)
  with live p show ?thesis by blast
qed

text \<open>
  The claim as worded covers the list operation and has every error printed. The list
  branch has no \<^verbatim>\<open>try\<close> statement: the error of \<^verbatim>\<open>describe_instances\<close> leaves the
  script, after the header. And outside test mode the error of a dry run is caught
  and dropped: the throttled \<^verbatim>\<open>start\<close> prints the confirmation only.
\<close>

theorem provider_errors_caught_counterexample:
  "main_list_mode (\<lambda>v. []) refusing_client False False False empty_world =
     (Inl (ClientError (unauthorized_error ''DescribeInstances'')),
      \<lparr> stdout = [''Instances found in your AWS account:'' @ [CHR 0x0A]],
        calls = [DescribeInstances] \<rparr>)
   \<and> start throttling_client live_settings empty_world =
     (Inr (),
      \<lparr> stdout = [''Command successful, i-123 is staring...''],
        calls = [StartInstances [''i-123''] True, StartInstances [''i-123''] False] \<rparr>)"
  by (simp add: main_list_mode_def list_instances_def call_describe_instances_def not_quiet_def
      py_print_def start_def call_start_instances_def live_settings_def empty_world_def
      example_clients)

subsection \<open>C6: the confirmation after a successful real call\<close>

text \<open>
  C6. Outside test mode, when the real call succeeds, the confirmation names the
  instance id and says that the instance is \<^verbatim>\<open>starting\<close> (for \<^verbatim>\<open>start\<close>) or
  \<^verbatim>\<open>stopping\<close> (for \<^verbatim>\<open>stop\<close>). The run below is \<^verbatim>\<open>--start i-123\<close> on the
  granting provider: the line that \<^verbatim>\<open>start\<close> prints reads \<^verbatim>\<open>staring\<close>, and the
  word \<^verbatim>\<open>starting\<close> does not occur in it (\<open>stop_confirmation\<close> has the line of
  \<^verbatim>\<open>stop\<close>, which reads \<^verbatim>\<open>stopping\<close>).
\<close>

theorem start_confirmation_reads_staring:
  "start granting_client live_settings empty_world =
     (Inr (),
      \<lparr> stdout = [''Command successful, i-123 is staring...''],
        calls = [StartInstances [''i-123''] True, StartInstances [''i-123''] False] \<rparr>)
   \<and> \<not> py_in ''starting'' ''Command successful, i-123 is staring...''"
  by (simp add: start_def call_start_instances_def py_print_def live_settings_def empty_world_def
      example_clients)

subsection \<open>C7: one record per instance entry, in source order\<close>

text \<open>
  C7. For every valid describe response the mapper returns a list of records, one for
  each instance entry of the response: the list has as many records as the response
  has entries, and the records are, in the order of the reservations and of the
  instances within them, the records of the entries. (The mapper is a function of
  the response alone.)
\<close>

theorem mapper_one_record_per_entry_in_order:
  assumes "valid_response response"
  shows "\<exists>recs. instance_from_response response = Inr recs
           \<and> length recs = length (instance_entries response)
           \<and> map ec2_instance_of (instance_entries response) = map Inr recs"
proof -
  from assms obtain rs where
    f: "list_field response ''Reservations'' = Some rs" and v: "list_all valid_reservation rs"
    by (auto simp: valid_response_def split: option.splits)
  from reservations_loop_valid [OF v, of "[]"] obtain recs where
    l: "reservations_loop rs [] = Inr recs"
    and m: "map ec2_instance_of (concat (map instances_in rs)) = map Inr recs" by auto
  have "instance_from_response response = Inr recs"
    using list_field_Some [OF f] l by (simp add: instance_from_response_def)
  moreover have e: "map ec2_instance_of (instance_entries response) = map Inr recs"
    using f m by (simp add: instance_entries_def)
  moreover have "length recs = length (instance_entries response)"
    using arg_cong [OF e, of length] by simp
  ultimately show ?thesis by blast
qed

text \<open>Two reservations, with two instances and with one: three records, in that order.\<close>

theorem mapper_one_record_per_entry_in_order_witness:
  "valid_response example_response
   \<and> instance_from_response example_response
       = Inr [example_running_record, example_stopped_record, example_stopped_record]"
proof -
  from mapper_one_record_per_entry_in_order [OF example_response_valid]
  obtain recs where r: "instance_from_response example_response = Inr recs"
    and m: "map ec2_instance_of (instance_entries example_response) = map Inr recs"
    by blast
  have e: "map ec2_instance_of (instance_entries example_response)
      = map Inr [example_running_record, example_stopped_record, example_stopped_record]"
    by (simp add: example_entries example_running_mapped example_stopped_mapped)
  have "map (Inr :: EC2Instance \<Rightarrow> exn + EC2Instance) recs
      = map Inr [example_running_record, example_stopped_record, example_stopped_record]"
    by (rule trans [OF m [symmetric] e])
  then have "recs = [example_running_record, example_stopped_record, example_stopped_record]"
    by (simp only: inj_map_eq_map [OF inj_Inr])
  with r example_response_valid show ?thesis by simp
qed

subsection \<open>C8: how a failed dry run is classified under test mode\<close>

text \<open>
  C8. Under test mode a dry run that fails is classified by the code of the error:
  the dry-run signal \<^verbatim>\<open>DryRunOperation\<close> is a successful permission check, and
  every other code is a permission failure, reported by the failure line with the raw
  error. The run below is \<^verbatim>\<open>--start i-123 --test\<close> on a provider that refuses the
  dry run with the code \<^verbatim>\<open>UnauthorizedOperation\<close> and a message that quotes the
  word \<^verbatim>\<open>DryRunOperation\<close>: the test of line 153 looks for the word anywhere in
  \<^verbatim>\<open>str(e)\<close>, finds it in the message, and the line of a successful test is
  printed for a refusal. (For an error whose text does not contain the word, and for
  one whose code is the signal, \<open>start_test_report\<close>, \<open>stop_test_report\<close> and
  \<open>dry_run_code_in_text\<close> give the lines of the claim.)
\<close>

theorem refusal_quoting_the_signal_is_reported_successful:
  "test test_settings
   \<and> start_instances quoting_client [instance_id test_settings] True
       = Inl (ClientError (quoting_error ''StartInstances''))
   \<and> err_code (quoting_error ''StartInstances'') = ''UnauthorizedOperation''
   \<and> start quoting_client test_settings empty_world =
       (Inr (), \<lparr> stdout = [''Test successful, able to start i-123.''],
                  calls = [StartInstances [''i-123''] True] \<rparr>)"
  by (simp add: start_def call_start_instances_def py_print_def test_settings_def empty_world_def
      example_clients str_client_error_def)

subsection \<open>C9: the fields without a fallback\<close>

text \<open>
  C9, as amended. For every instance entry whose \<^verbatim>\<open>Placement\<close> and \<^verbatim>\<open>State\<close>
  are present as dictionaries, the mapper returns a record in which every field other
  than the public DNS name and the public IP address is the value that \<^verbatim>\<open>get\<close>
  reads from the entry (the availability zone from \<^verbatim>\<open>Placement\<close>, the state name
  from \<^verbatim>\<open>State\<close>): the value of the field, or \<^verbatim>\<open>None\<close> when the field is absent
  (\<open>dict_get\<close>). For an entry in which \<^verbatim>\<open>Placement\<close> or \<^verbatim>\<open>State\<close> is absent or
  is not a dictionary, the mapper raises \<^verbatim>\<open>AttributeError\<close> and returns no record.
\<close>

theorem other_fields_pass_through:
  "ec2_instance_of (PDict entry) =
     (if is_dict (dict_get entry ''Placement'') \<and> is_dict (dict_get entry ''State'') then
        Inr \<lparr> image_id = dict_get entry ''ImageId'',
              ec2_instance_id = dict_get entry ''InstanceId'',
              instance_type = dict_get entry ''InstanceType'',
              launch_time = dict_get entry ''LaunchTime'',
              availability_zone =
                dict_get (fields_of (dict_get entry ''Placement'')) ''AvailabilityZone'',
              private_dns_name = dict_get entry ''PrivateDnsName'',
              private_ip_address = dict_get entry ''PrivateIpAddress'',
              public_ip_address = or_NONE (dict_get entry ''PublicIpAddress''),
              public_dns_name = or_NONE (dict_get entry ''PublicDnsName''),
              state = dict_get (fields_of (dict_get entry ''State'')) ''Name'',
              subnet_id = dict_get entry ''SubnetId'',
              vpc_id = dict_get entry ''VpcId'',
              tags = dict_get entry ''Tags'' \<rparr>
      else Inl AttributeError)"
proof (cases "is_dict (dict_get entry ''Placement'')")
  case False
  then show ?thesis by (simp add: ec2_instance_of_dict py_get_not_dict)
next
  case p: True
  show ?thesis
  proof (cases "is_dict (dict_get entry ''State'')")
    case False
    with p show ?thesis by (auto simp: ec2_instance_of_dict py_get_not_dict is_dict_iff)
  next
    case True
    with p show ?thesis by (auto simp: ec2_instance_of_dict is_dict_iff)
  qed
qed

text \<open>
  The claim as worded has the mapper total on entries with absent fields. The entry
  below has no \<^verbatim>\<open>Placement\<close>: line 108 calls \<^verbatim>\<open>get\<close> on \<^verbatim>\<open>None\<close>.
\<close>

theorem other_fields_total_counterexample:
  "ec2_instance_of
     (PDict [(''InstanceId'', PStr ''i-123''), (''State'', PDict [(''Name'', PStr ''running'')])])
   = Inl AttributeError"
  by (simp add: ec2_instance_of_dict dict_get_def)

subsection \<open>C10: the header of list mode\<close>

text \<open>
  C10. In list mode the console receives, first, the header \<^verbatim>\<open>Instances found in
  your AWS account:\<close> followed by a blank line (one \<^verbatim>\<open>print\<close> of the header and a
  line break) if and only if the quiet flag is not set, and after it nothing but the
  summaries of the listed records, in order; when the listing fails, nothing follows
  the header.
\<close>

theorem list_mode_output:
  "stdout (snd (main_list_mode rp ec2 arg_test arg_verbose arg_quiet w)) =
     stdout w
     @ (if arg_quiet then [] else [''Instances found in your AWS account:'' @ [CHR 0x0A]])
     @ (case and_then (describe_instances ec2) instance_from_response of
          Inl x \<Rightarrow> []
        | Inr all_instances \<Rightarrow>
            concat (map (summary_of rp \<lparr> instance_id = [], test = arg_test,
                                          verbose = arg_verbose, quiet = arg_quiet \<rparr>)
                      all_instances))"
proof -
  define app_settings where
    "app_settings =
       \<lparr> instance_id = [], test = arg_test, verbose = arg_verbose, quiet = arg_quiet \<rparr>"
  define w1 where
    "w1 = not_quiet app_settings (''Instances found in your AWS account:'' @ [CHR 0x0A]) w"
  have q: "quiet app_settings = arg_quiet" by (simp add: app_settings_def)
  have w1: "stdout w1 =
      stdout w @ (if arg_quiet then [] else [''Instances found in your AWS account:'' @ [CHR 0x0A]])"
    unfolding w1_def not_quiet_stdout q ..
  have m: "main_list_mode rp ec2 arg_test arg_verbose arg_quiet w =
      (case fst (list_instances ec2 w1) of
         Inl x \<Rightarrow> (Inl x, snd (list_instances ec2 w1))
       | Inr all_instances \<Rightarrow>
           (Inr (), print_all rp app_settings all_instances (snd (list_instances ec2 w1))))"
    unfolding main_list_mode_def Let_def app_settings_def [symmetric] w1_def [symmetric]
    by (simp add: case_prod_unfold)
  show ?thesis
  proof (cases "and_then (describe_instances ec2) instance_from_response")
    case (Inl x)
    then show ?thesis
      unfolding m app_settings_def [symmetric]
      by (simp add: list_instances_fst list_instances_stdout w1)
  next
    case (Inr all_instances)
    then show ?thesis
      unfolding m app_settings_def [symmetric]
      by (simp add: list_instances_fst list_instances_stdout print_all_stdout w1)
  qed
qed

end
